theory Spec2Isabelle
  imports Complex_Main
begin

section \<open>JavaScript values\<close>

text \<open>
  A JavaScript \<^verbatim>\<open>number\<close> is modelled as a real number in exact arithmetic, or
  \<^verbatim>\<open>NaN\<close>. Rounding, overflow, the two infinities and the sign of zero are left out.
  \<^verbatim>\<open>NaN\<close> is kept because ordinary inputs produce it (\<^verbatim>\<open>Number('')\<close> is 0 but
  \<^verbatim>\<open>parseFloat('')\<close> is \<^verbatim>\<open>NaN\<close>) and because every comparison with it is false, which
  decides the guards of the code.

  A zero divisor gives \<^verbatim>\<open>NaN\<close> here; JavaScript gives \<^verbatim>\<open>NaN\<close> for 0/0 and an infinity
  otherwise. No division of the code below can meet a zero divisor: each one divides by
  the literal 100 or stands under a \<^verbatim>\<open>> 0\<close> test of its divisor.

  The model carries what does not depend on rounding: which guard is taken, the
  expression a function evaluates, and results on values that doubles hold exactly. A
  property that rounding or underflow can break, such as a strict inequality between two
  quotients, is not stated in it.
\<close>

datatype number = Num real | NaN

instantiation number :: "{zero, plus, times, inverse, ord}"
begin

definition zero_number :: number where
  "zero_number = Num 0"

fun plus_number :: "number \<Rightarrow> number \<Rightarrow> number" where
  "plus_number (Num x) (Num y) = Num (x + y)"
| "plus_number _ _ = NaN"

fun times_number :: "number \<Rightarrow> number \<Rightarrow> number" where
  "times_number (Num x) (Num y) = Num (x * y)"
| "times_number _ _ = NaN"

definition inverse_number :: "number \<Rightarrow> number" where
  "inverse_number a = (case a of Num y \<Rightarrow> (if y = 0 then NaN else Num (1 / y)) | NaN \<Rightarrow> NaN)"

fun divide_number :: "number \<Rightarrow> number \<Rightarrow> number" where
  "divide_number (Num x) (Num y) = (if y = 0 then NaN else Num (x / y))"
| "divide_number _ _ = NaN"

fun less_number :: "number \<Rightarrow> number \<Rightarrow> bool" where
  "less_number (Num x) (Num y) = (x < y)"
| "less_number _ _ = False"

fun less_eq_number :: "number \<Rightarrow> number \<Rightarrow> bool" where
  "less_eq_number (Num x) (Num y) = (x \<le> y)"
| "less_eq_number _ _ = False"

instance ..

end

text \<open>
  The cells of a spreadsheet row are untyped (\<^verbatim>\<open>any\<close>): a missing column reads as
  \<^verbatim>\<open>undefined\<close>, the others hold a boolean, a number or a string.
\<close>

datatype jsval = JUndefined | JBool bool | JNum number | JStr string

fun truthy :: "jsval \<Rightarrow> bool" where
  "truthy JUndefined = False"
| "truthy (JBool b) = b"
| "truthy (JNum (Num x)) = (x \<noteq> 0)"
| "truthy (JNum NaN) = False"
| "truthy (JStr s) = (s \<noteq> [])"

text \<open>\<^verbatim>\<open>a || b\<close>\<close>

definition js_or :: "jsval \<Rightarrow> jsval \<Rightarrow> jsval" where
  "js_or a b = (if truthy a then a else b)"

text \<open>
  Built-ins of the platform are parameters of the model: the decimal text of a number
  (\<^verbatim>\<open>String(n)\<close>), \<^verbatim>\<open>parseFloat\<close> on a string, the values that successive calls of
  \<^verbatim>\<open>crypto.randomUUID()\<close> return, and \<^verbatim>\<open>toLowerCase\<close> and \<^verbatim>\<open>trim\<close> on the strings
  that hold a character outside ASCII.
\<close>

record builtins =
  numberToString :: "number \<Rightarrow> string"
  parseFloatString :: "string \<Rightarrow> number"
  randomUUID :: "nat \<Rightarrow> string"
  toLowerCaseUnicode :: "string \<Rightarrow> string"
  trimUnicode :: "string \<Rightarrow> string"

text \<open>
  A string stands for a JavaScript string in UTF-8: an ASCII character is one byte below
  0x80, any other character is a sequence of bytes from 0x80 on. On a string of ASCII
  characters \<^verbatim>\<open>toLowerCase\<close> maps the capitals \<^verbatim>\<open>A\<close> to \<^verbatim>\<open>Z\<close> and keeps the rest, and
  \<^verbatim>\<open>trim\<close> removes the characters 0x09 to 0x0D and 0x20 at both ends, which are the
  ASCII white space and line terminators. On any other string both are the platform's
  Unicode functions.
\<close>

definition isASCII :: "char \<Rightarrow> bool" where
  "isASCII c = (\<not> digit7 c)"

definition toLowerCase_char :: "char \<Rightarrow> char" where
  "toLowerCase_char c =
     (case map_of (zip ''ABCDEFGHIJKLMNOPQRSTUVWXYZ'' ''abcdefghijklmnopqrstuvwxyz'') c of
        Some l \<Rightarrow> l
      | None \<Rightarrow> c)"

definition toLowerCase :: "builtins \<Rightarrow> string \<Rightarrow> string" where
  "toLowerCase env s =
     (if list_all isASCII s then map toLowerCase_char s else toLowerCaseUnicode env s)"

definition isWhiteSpace :: "char \<Rightarrow> bool" where
  "isWhiteSpace c = (c \<in> set [CHR 0x09, CHR 0x0A, CHR 0x0B, CHR 0x0C, CHR 0x0D, CHR 0x20])"

definition trim :: "builtins \<Rightarrow> string \<Rightarrow> string" where
  "trim env s =
     (if list_all isASCII s then rev (dropWhile isWhiteSpace (rev (dropWhile isWhiteSpace s)))
      else trimUnicode env s)"

text \<open>\<^verbatim>\<open>String(v)\<close>\<close>

fun jsString :: "builtins \<Rightarrow> jsval \<Rightarrow> string" where
  "jsString env JUndefined = ''undefined''"
| "jsString env (JBool b) = (if b then ''true'' else ''false'')"
| "jsString env (JNum n) = numberToString env n"
| "jsString env (JStr s) = s"

text \<open>
  \<^verbatim>\<open>parseFloat(v)\<close> parses \<^verbatim>\<open>String(v)\<close>. The text of a number parses back to that number,
  the texts of \<^verbatim>\<open>undefined\<close> and of the booleans do not start a number.
\<close>

fun parseFloat :: "builtins \<Rightarrow> jsval \<Rightarrow> number" where
  "parseFloat env JUndefined = NaN"
| "parseFloat env (JBool b) = NaN"
| "parseFloat env (JNum n) = n"
| "parseFloat env (JStr s) = parseFloatString env s"

section \<open>The data model (types.ts)\<close>

datatype Unit = GRAM | KILOGRAM | MILLILITER | LITER | PIECE | OUNCE | POUND

definition INGREDIENT_CATEGORIES :: "string list" where
  "INGREDIENT_CATEGORIES =
     [''Meat'', ''Seafood'', ''Flours'', ''Dairy'', ''Bakery'', ''Condiments'',
      ''Vegetables'', ''Pasta'', ''Fruits'', ''Alcohol'', ''Others'']"

record Ingredient =
  ing_id :: string
  ing_name :: string
  ing_category :: string
  ing_purchaseUnit :: Unit
  ing_purchaseCost :: number
  ing_purchaseQuantity :: number
  ing_costPerBaseUnit :: number

text \<open>
  A recipe line is declared with a \<^verbatim>\<open>number\<close> as quantity and a \<^verbatim>\<open>Unit\<close> as unit, but
  the draft handler stores there, unchecked, what a suggestion of the text service holds:
  any unit text, and nothing (\<^verbatim>\<open>undefined\<close>, here \<open>None\<close>) for a field the suggestion
  lacks. In arithmetic \<^verbatim>\<open>undefined\<close> converts to \<^verbatim>\<open>NaN\<close>.
\<close>

record RecipeIngredient =
  ri_ingredientId :: string
  ri_quantity :: "number option"
  ri_unit :: "string option"

definition ToNumber :: "number option \<Rightarrow> number" where
  "ToNumber v = (case v of None \<Rightarrow> NaN | Some n \<Rightarrow> n)"

record Recipe =
  rec_id :: string
  rec_name :: string
  rec_description :: string
  rec_servings :: number
  rec_ingredients :: "RecipeIngredient list"
  rec_laborCost :: number
  rec_overheadPercentage :: number
  rec_targetFoodCostPercentage :: number
  rec_instructions :: "string option"
  rec_imageUrl :: "string option"

record CostBreakdown =
  cb_totalIngredientCost :: number
  cb_laborCost :: number
  cb_overheadCost :: number
  cb_totalCost :: number
  cb_costPerServing :: number
  cb_suggestedPrice :: number
  cb_actualPrice :: "number option"
  cb_currentMargin :: "number option"

text \<open>The messages the handlers show with \<^verbatim>\<open>alert\<close>.\<close>

datatype alert =
    CannotDeleteUsed
  | SuccessfullyImported nat
  | NoValidIngredients
  | FailedToGenerate

text \<open>The exception of a method call on \<^verbatim>\<open>undefined\<close>.\<close>

datatype exception = TypeError

section \<open>The application state and the catalog operations (App)\<close>

record App =
  st_ingredients :: "Ingredient list"
  st_recipes :: "Recipe list"


definition handleBulkAddIngredients :: "Ingredient list \<Rightarrow> App \<Rightarrow> App" where
  "handleBulkAddIngredients newIngredients st =
     st\<lparr>st_ingredients := st_ingredients st @ newIngredients\<rparr>"

definition handleUpdateIngredient :: "Ingredient \<Rightarrow> App \<Rightarrow> App" where
  "handleUpdateIngredient updatedIng st =
     st\<lparr>st_ingredients :=
          map (\<lambda>i. if ing_id i = ing_id updatedIng then updatedIng else i) (st_ingredients st)\<rparr>"

definition handleDeleteIngredient :: "string \<Rightarrow> App \<Rightarrow> alert option \<times> App" where
  "handleDeleteIngredient ident st =
     (let isUsed = list_ex (\<lambda>r. list_ex (\<lambda>ri. ri_ingredientId ri = ident) (rec_ingredients r))
                     (st_recipes st)
      in if isUsed then (Some CannotDeleteUsed, st)
         else (None, st\<lparr>st_ingredients := filter (\<lambda>i. ing_id i \<noteq> ident) (st_ingredients st)\<rparr>))"

subsection \<open>The cost calculation engine\<close>

text \<open>The \<^verbatim>\<open>forEach\<close> over the recipe's lines, with the running total as accumulator.\<close>

definition addLineCost :: "Ingredient list \<Rightarrow> number \<Rightarrow> RecipeIngredient \<Rightarrow> number" where
  "addLineCost ingredients totalIngredientCost item =
     (case find (\<lambda>i. ing_id i = ri_ingredientId item) ingredients of
        Some ing \<Rightarrow> totalIngredientCost + ToNumber (ri_quantity item) * ing_costPerBaseUnit ing
      | None \<Rightarrow> totalIngredientCost)"

definition totalIngredientCost :: "Ingredient list \<Rightarrow> Recipe \<Rightarrow> number" where
  "totalIngredientCost ingredients recipe =
     foldl (addLineCost ingredients) 0 (rec_ingredients recipe)"

definition ingredientCostPerServing :: "Ingredient list \<Rightarrow> Recipe \<Rightarrow> number" where
  "ingredientCostPerServing ingredients recipe =
     (if rec_servings recipe > 0
      then totalIngredientCost ingredients recipe / rec_servings recipe
      else 0)"

definition calculateRecipeCost :: "Ingredient list \<Rightarrow> Recipe \<Rightarrow> CostBreakdown" where
  "calculateRecipeCost ingredients recipe =
     (let total = totalIngredientCost ingredients recipe;
          overheadCost = total * (rec_overheadPercentage recipe / Num 100);
          totalCost = total + rec_laborCost recipe + overheadCost;
          costPerServing = (if rec_servings recipe > 0 then totalCost / rec_servings recipe else 0);
          targetDecimal = rec_targetFoodCostPercentage recipe / Num 100;
          suggestedPrice =
            (if targetDecimal > 0
             then ingredientCostPerServing ingredients recipe / targetDecimal
             else 0)
      in \<lparr>cb_totalIngredientCost = total,
          cb_laborCost = rec_laborCost recipe,
          cb_overheadCost = overheadCost,
          cb_totalCost = totalCost,
          cb_costPerServing = costPerServing,
          cb_suggestedPrice = suggestedPrice,
          cb_actualPrice = None,
          cb_currentMargin = None\<rparr>)"

section \<open>The ingredient manager\<close>

definition calculateBaseCost :: "Unit \<Rightarrow> number \<Rightarrow> number \<Rightarrow> number" where
  "calculateBaseCost unit cost quantity =
     (let baseFactor = Num 1;
          baseFactor = (if unit = KILOGRAM then Num 1000 else baseFactor);
          baseFactor = (if unit = LITER then Num 1000 else baseFactor);
          totalBaseUnits = quantity * baseFactor
      in if totalBaseUnits > 0 then cost / totalBaseUnits else 0)"





text \<open>Truthiness of an optional string and of an optional number.\<close>

fun truthy_string :: "string option \<Rightarrow> bool" where
  "truthy_string None = False"
| "truthy_string (Some s) = (s \<noteq> [])"

fun truthy_number :: "number option \<Rightarrow> bool" where
  "truthy_number None = False"
| "truthy_number (Some (Num x)) = (x \<noteq> 0)"
| "truthy_number (Some NaN) = False"


definition parseUnit :: "builtins \<Rightarrow> string \<Rightarrow> Unit" where
  "parseUnit env raw =
     (let lower = trim env (toLowerCase env raw)
      in if lower = ''kg'' \<or> lower = ''kilogram'' \<or> lower = ''kgs'' then KILOGRAM
         else if lower = ''g'' \<or> lower = ''gram'' \<or> lower = ''gms'' then GRAM
         else if lower = ''l'' \<or> lower = ''liter'' \<or> lower = ''litre'' then LITER
         else if lower = ''ml'' \<or> lower = ''milliliter'' then MILLILITER
         else if lower = ''oz'' \<or> lower = ''ounce'' then OUNCE
         else if lower = ''lb'' \<or> lower = ''pound'' \<or> lower = ''lbs'' then POUND
         else PIECE)"

subsection \<open>Bulk import\<close>

text \<open>A row of the sheet: the cell under each column header.\<close>

type_synonym row = "string \<Rightarrow> jsval"

definition row_name :: "row \<Rightarrow> jsval" where
  "row_name row =
     js_or (js_or (js_or (js_or (row ''Name'') (row ''name'')) (row ''Ingredient''))
                  (row ''ingredient''))
           (row ''Item'')"

definition row_category :: "builtins \<Rightarrow> row \<Rightarrow> jsval" where
  "row_category env row =
     (let category = js_or (js_or (row ''Category'') (row ''category'')) (JStr ''Others'')
      in case find (\<lambda>c. toLowerCase env c = toLowerCase env (jsString env category))
                   INGREDIENT_CATEGORIES of
           Some matchCat \<Rightarrow> (if matchCat \<noteq> [] then JStr matchCat else category)
         | None \<Rightarrow> category)"

definition row_cost :: "builtins \<Rightarrow> row \<Rightarrow> number" where
  "row_cost env row =
     parseFloat env
       (js_or (js_or (js_or (js_or (row ''Cost'') (row ''cost'')) (row ''Price''))
                     (row ''price''))
              (JStr ''0''))"

definition row_qty :: "builtins \<Rightarrow> row \<Rightarrow> number" where
  "row_qty env row =
     parseFloat env
       (js_or (js_or (js_or (js_or (row ''Quantity'') (row ''quantity'')) (row ''Qty''))
                     (row ''qty''))
              (JStr ''1''))"

definition row_unitRaw :: "row \<Rightarrow> jsval" where
  "row_unitRaw row = js_or (js_or (js_or (row ''Unit'') (row ''unit'')) (row ''UOM'')) (JStr ''kg'')"

text \<open>The object that the body of the \<^verbatim>\<open>forEach\<close> over the rows pushes for a row.\<close>

definition rowIngredient :: "builtins \<Rightarrow> string \<Rightarrow> row \<Rightarrow> Ingredient" where
  "rowIngredient env uuid row =
     (let name = row_name row;
          category = row_category env row;
          cost = row_cost env row;
          qty = row_qty env row;
          unitRaw = row_unitRaw row;
          unit = parseUnit env (jsString env unitRaw);
          costPerBaseUnit = calculateBaseCost unit cost qty
      in \<lparr>ing_id = uuid,
          ing_name = jsString env name,
          ing_category = jsString env category,
          ing_purchaseUnit = unit,
          ing_purchaseCost = cost,
          ing_purchaseQuantity = qty,
          ing_costPerBaseUnit = costPerBaseUnit\<rparr>)"

text \<open>
  The body of the \<^verbatim>\<open>forEach\<close> over the rows; \<open>parsedIngredients\<close> is the array it pushes
  to. The identifier of a pushed row is the next value of \<^verbatim>\<open>crypto.randomUUID()\<close>: one
  call has been made for each row pushed before.
\<close>

definition importRow :: "builtins \<Rightarrow> Ingredient list \<Rightarrow> row \<Rightarrow> Ingredient list" where
  "importRow env parsedIngredients row =
     (let name = row_name row;
          cost = row_cost env row
      in if truthy name \<and> cost > 0
         then parsedIngredients @
                [rowIngredient env (randomUUID env (length parsedIngredients)) row]
         else parsedIngredients)"

text \<open>
  \<^verbatim>\<open>handleFileUpload\<close> from the point where the sheet has been read into \<open>jsonData\<close>.
\<close>

definition handleFileUpload :: "builtins \<Rightarrow> row list \<Rightarrow> App \<Rightarrow> alert \<times> App" where
  "handleFileUpload env jsonData st =
     (let parsedIngredients = foldl (importRow env) [] jsonData
      in if length parsedIngredients > 0
         then (SuccessfullyImported (length parsedIngredients),
               handleBulkAddIngredients parsedIngredients st)
         else (NoValidIngredients, st))"

section \<open>The recipe manager: merging a generated draft\<close>

text \<open>
  The draft is the parsed JSON answer of the text service. Its response schema gives the
  type of each field and requires none: a draft may lack any of its four fields, and a
  suggestion any of its own. A field that is absent reads as \<^verbatim>\<open>undefined\<close>, here \<open>None\<close>.
\<close>

record Suggestion =
  sug_name :: "string option"
  sug_quantity :: "number option"
  sug_unit :: "string option"
  sug_estimatedCost :: "number option"

record Draft =
  draft_description :: "string option"
  draft_servings :: "number option"
  draft_instructions :: "string option"
  draft_ingredients :: "Suggestion list option"

text \<open>
  \<^verbatim>\<open>ingredients.find(i => i.name.toLowerCase() === suggested.name.toLowerCase())\<close>. On an
  empty catalog the test is never run. Otherwise it is run on the first entry, where
  \<^verbatim>\<open>suggested.name.toLowerCase()\<close> throws when the suggestion has no name.
\<close>

definition findMatch ::
  "builtins \<Rightarrow> Ingredient list \<Rightarrow> Suggestion \<Rightarrow> exception + Ingredient option" where
  "findMatch env ingredients suggested =
     (if ingredients = [] then Inr None
      else
        case sug_name suggested of
          None \<Rightarrow> Inl TypeError
        | Some name \<Rightarrow>
            Inr (find (\<lambda>i. toLowerCase env (ing_name i) = toLowerCase env name) ingredients))"

text \<open>The line pushed for a suggestion and the catalog entry it matched.\<close>

definition suggestionLine :: "Ingredient \<Rightarrow> Suggestion \<Rightarrow> RecipeIngredient" where
  "suggestionLine matched suggested =
     (let qty = sug_quantity suggested;
          qty = (if sug_unit suggested = Some ''kg'' then Some (ToNumber qty * Num 1000) else qty);
          qty = (if sug_unit suggested = Some ''l'' then Some (ToNumber qty * Num 1000) else qty)
      in \<lparr>ri_ingredientId = ing_id matched, ri_quantity = qty, ri_unit = sug_unit suggested\<rparr>)"

text \<open>
  The body of the \<^verbatim>\<open>forEach\<close> over the suggestions. Its state is the array
  \<open>newIngredients\<close> and the lines written to the console; it ends in that state or in an
  exception.
\<close>

definition reconcileSuggestion ::
  "builtins \<Rightarrow> Ingredient list \<Rightarrow> RecipeIngredient list \<times> string list \<Rightarrow> Suggestion
     \<Rightarrow> exception + RecipeIngredient list \<times> string list" where
  "reconcileSuggestion env ingredients acc suggested =
     (let newIngredients = fst acc; console = snd acc
      in case findMatch env ingredients suggested of
           Inl e \<Rightarrow> Inl e
         | Inr (Some matched) \<Rightarrow>
             Inr (newIngredients @ [suggestionLine matched suggested], console)
         | Inr None \<Rightarrow>
             Inr (newIngredients,
                  console @ [''Missing ingredient from AI: '' @
                              (case sug_name suggested of None \<Rightarrow> ''undefined''
                               | Some name \<Rightarrow> name)]))"

text \<open>
  The \<^verbatim>\<open>forEach\<close>: an exception ends it. What was pushed and written before stays in
  the result, next to the exception.
\<close>

fun forEachSuggestion ::
  "builtins \<Rightarrow> Ingredient list \<Rightarrow> Suggestion list \<Rightarrow> RecipeIngredient list \<times> string list
     \<Rightarrow> exception option \<times> RecipeIngredient list \<times> string list" where
  "forEachSuggestion env ingredients [] acc = (None, acc)"
| "forEachSuggestion env ingredients (suggested # rest) acc =
     (case reconcileSuggestion env ingredients acc suggested of
        Inl e \<Rightarrow> (Some e, acc)
      | Inr acc' \<Rightarrow> forEachSuggestion env ingredients rest acc')"

text \<open>\<^verbatim>\<open>draft.ingredients?.forEach(...)\<close> on an empty \<open>newIngredients\<close>.\<close>

definition reconcile ::
  "builtins \<Rightarrow> Ingredient list \<Rightarrow> Draft
     \<Rightarrow> exception option \<times> RecipeIngredient list \<times> string list" where
  "reconcile env ingredients draft =
     (case draft_ingredients draft of
        None \<Rightarrow> (None, [], [])
      | Some suggestions \<Rightarrow> forEachSuggestion env ingredients suggestions ([], []))"

text \<open>The updater passed to \<^verbatim>\<open>setActiveRecipe\<close>.\<close>

definition mergeDraft :: "Draft \<Rightarrow> RecipeIngredient list \<Rightarrow> Recipe option \<Rightarrow> Recipe option" where
  "mergeDraft draft newIngredients prev =
     (case prev of
        None \<Rightarrow> None
      | Some p \<Rightarrow>
          Some (p\<lparr>rec_description :=
                     (if truthy_string (draft_description draft) then the (draft_description draft)
                      else rec_description p),
                   rec_instructions :=
                     (if truthy_string (draft_instructions draft) then draft_instructions draft
                      else rec_instructions p),
                   rec_servings :=
                     (if truthy_number (draft_servings draft) then the (draft_servings draft)
                      else rec_servings p),
                   rec_ingredients :=
                     (if length newIngredients > 0 then newIngredients
                      else rec_ingredients p)\<rparr>))"

text \<open>
  \<^verbatim>\<open>handleGenerateAI\<close>. \<open>response\<close> is what awaiting \<^verbatim>\<open>generateRecipeDraft\<close> gives:
  a draft, or \<open>None\<close> when the call throws. An exception of the call or of the loop is
  caught: the handler then shows the failure alert and does not reach
  \<^verbatim>\<open>setActiveRecipe\<close>. The result is the new \<^verbatim>\<open>activeRecipe\<close>, the alert shown and the
  console lines. The catalog \<open>ingredients\<close> is a property of the component: the handler
  reads it and has no way to write it.
\<close>

definition handleGenerateAI ::
  "builtins \<Rightarrow> Ingredient list \<Rightarrow> Draft option \<Rightarrow> Recipe option
     \<Rightarrow> Recipe option \<times> alert option \<times> string list" where
  "handleGenerateAI env ingredients response activeRecipe =
     (if (case activeRecipe of None \<Rightarrow> True | Some a \<Rightarrow> rec_name a = [])
      then (activeRecipe, None, [])
      else
        case response of
          None \<Rightarrow> (activeRecipe, Some FailedToGenerate, [])
        | Some draft \<Rightarrow>
            (case reconcile env ingredients draft of
               (Some e, newIngredients, console) \<Rightarrow>
                 (activeRecipe, Some FailedToGenerate, console)
             | (None, newIngredients, console) \<Rightarrow>
                 (mergeDraft draft newIngredients activeRecipe, None, console)))"

section \<open>Sample data\<close>

text \<open>The catalog the application starts with (the default of the stored state in App).\<close>

definition flour :: Ingredient where
  "flour = \<lparr>ing_id = ''1'', ing_name = ''All-Purpose Flour'', ing_category = ''Flours'',
            ing_purchaseUnit = KILOGRAM, ing_purchaseCost = Num 18000,
            ing_purchaseQuantity = Num 1, ing_costPerBaseUnit = Num 18\<rparr>"

definition milk :: Ingredient where
  "milk = \<lparr>ing_id = ''3'', ing_name = ''Fresh Milk'', ing_category = ''Dairy'',
           ing_purchaseUnit = LITER, ing_purchaseCost = Num 28000,
           ing_purchaseQuantity = Num 1, ing_costPerBaseUnit = Num 28\<rparr>"

definition initialIngredients :: "Ingredient list" where
  "initialIngredients =
     [flour,
      \<lparr>ing_id = ''2'', ing_name = ''Eggs (Large Tray)'', ing_category = ''Dairy'',
       ing_purchaseUnit = PIECE, ing_purchaseCost = Num 65000,
       ing_purchaseQuantity = Num 30, ing_costPerBaseUnit = Num 2166.67\<rparr>,
      milk,
      \<lparr>ing_id = ''4'', ing_name = ''Ground Beef'', ing_category = ''Meat'',
       ing_purchaseUnit = KILOGRAM, ing_purchaseCost = Num 140000,
       ing_purchaseQuantity = Num 1, ing_costPerBaseUnit = Num 140\<rparr>,
      \<lparr>ing_id = ''5'', ing_name = ''Olive Oil'', ing_category = ''Condiments'',
       ing_purchaseUnit = LITER, ing_purchaseCost = Num 125000,
       ing_purchaseQuantity = Num 1, ing_costPerBaseUnit = Num 125\<rparr>,
      \<lparr>ing_id = ''6'', ing_name = ''Tomatoes'', ing_category = ''Vegetables'',
       ing_purchaseUnit = KILOGRAM, ing_purchaseCost = Num 15000,
       ing_purchaseQuantity = Num 1, ing_costPerBaseUnit = Num 15\<rparr>]"

text \<open>A recipe of 250 g of flour and nothing else, one serving, target 30 percent.\<close>

definition flourLine :: RecipeIngredient where
  "flourLine = \<lparr>ri_ingredientId = ''1'', ri_quantity = Some (Num 250), ri_unit = Some ''g''\<rparr>"

definition bread :: Recipe where
  "bread = \<lparr>rec_id = ''r1'', rec_name = ''Bread'', rec_description = [],
            rec_servings = Num 1, rec_ingredients = [flourLine],
            rec_laborCost = Num 0, rec_overheadPercentage = Num 0,
            rec_targetFoodCostPercentage = Num 30,
            rec_instructions = None, rec_imageUrl = None\<rparr>"

text \<open>The starting catalog with one saved recipe.\<close>

definition initialApp :: App where
  "initialApp = \<lparr>st_ingredients = initialIngredients, st_recipes = [bread]\<rparr>"

text \<open>
  The flour entry with the price 20000 and the cost per base unit of the old price; and
  the form of the ingredient manager after \<^verbatim>\<open>startEdit\<close> on the flour entry and a change
  of the cost field to 20000: the form still holds the old cost per base unit.
\<close>

definition staleFlour :: Ingredient where
  "staleFlour = flour\<lparr>ing_purchaseCost := Num 20000\<rparr>"


text \<open>Two suggestions of a draft: one names a catalog entry, the other does not.\<close>

definition flourSuggestion :: Suggestion where
  "flourSuggestion =
     \<lparr>sug_name = Some ''All-Purpose Flour'', sug_quantity = Some (Num 0.5),
      sug_unit = Some ''kg'', sug_estimatedCost = Some (Num 9000)\<rparr>"





text \<open>
  A sheet of ten rows, two of them with cost 0, and a stand-in for the built-ins that is
  right where the samples need it: the texts \<^verbatim>\<open>0\<close> and \<^verbatim>\<open>1\<close> (the defaults of the cost
  and quantity columns) parse to 0 and 1, no cell of the sheet holds a number where a
  text is read, and every string of the samples is ASCII.
\<close>

definition sampleBuiltins :: builtins where
  "sampleBuiltins =
     \<lparr>numberToString = (\<lambda>n. if n = Num 0 then ''0'' else if n = Num 1 then ''1'' else ''NaN''),
      parseFloatString = (\<lambda>s. if s = ''0'' then Num 0 else if s = ''1'' then Num 1 else NaN),
      randomUUID = (\<lambda>k. replicate (Suc k) CHR ''u''),
      toLowerCaseUnicode = (\<lambda>s. s), trimUnicode = (\<lambda>s. s)\<rparr>"

definition sampleRow :: "string \<Rightarrow> real \<Rightarrow> row" where
  "sampleRow name cost =
     (\<lambda>column. JUndefined)(''Name'' := JStr name, ''Cost'' := JNum (Num cost), ''Unit'' := JStr ''Kg'')"

definition sampleRows :: "row list" where
  "sampleRows =
     [sampleRow ''Salt'' 5000, sampleRow ''Sugar'' 14000, sampleRow ''Water'' 0,
      sampleRow ''Butter'' 45000, sampleRow ''Rice'' 13000, sampleRow ''Garlic'' 30000,
      sampleRow ''Ice'' 0, sampleRow ''Onion'' 25000, sampleRow ''Chili'' 40000,
      sampleRow ''Pepper'' 90000]"

section \<open>Properties\<close>

subsection \<open>Comparisons and arithmetic on numbers\<close>

lemma zero_less_Num [simp]: "(0 < Num x) = (0 < x)"
  by (simp add: zero_number_def)

lemma not_zero_less_NaN [simp]: "\<not> 0 < NaN"
  by (simp add: zero_number_def)

subsection \<open>The unit normalizer\<close>

text \<open>
  C2. For a cost \<open>c \<ge> 0\<close> and a purchase quantity \<open>q > 0\<close>, \<^verbatim>\<open>calculateBaseCost\<close> returns
  \<open>c / (q * factor)\<close>, where the factor is 1 for gram and 1000 for kilogram, 1 for
  milliliter and 1000 for liter, and 1 for piece, ounce and pound.
\<close>

theorem calculateBaseCost_formula:
  assumes "0 \<le> c" and "0 < q"
  shows "calculateBaseCost GRAM (Num c) (Num q) = Num (c / (q * 1))
       \<and> calculateBaseCost KILOGRAM (Num c) (Num q) = Num (c / (q * 1000))
       \<and> calculateBaseCost MILLILITER (Num c) (Num q) = Num (c / (q * 1))
       \<and> calculateBaseCost LITER (Num c) (Num q) = Num (c / (q * 1000))
       \<and> calculateBaseCost PIECE (Num c) (Num q) = Num (c / (q * 1))
       \<and> calculateBaseCost OUNCE (Num c) (Num q) = Num (c / (q * 1))
       \<and> calculateBaseCost POUND (Num c) (Num q) = Num (c / (q * 1))"
  using assms by (simp add: calculateBaseCost_def)

theorem calculateBaseCost_formula_witness:
  "(0::real) \<le> 18000 \<and> (0::real) < 2
   \<and> calculateBaseCost GRAM (Num 18000) (Num 2) = Num 9000
   \<and> calculateBaseCost KILOGRAM (Num 18000) (Num 2) = Num 9
   \<and> calculateBaseCost MILLILITER (Num 18000) (Num 2) = Num 9000
   \<and> calculateBaseCost LITER (Num 18000) (Num 2) = Num 9
   \<and> calculateBaseCost PIECE (Num 18000) (Num 2) = Num 9000
   \<and> calculateBaseCost OUNCE (Num 18000) (Num 2) = Num 9000
   \<and> calculateBaseCost POUND (Num 18000) (Num 2) = Num 9000"
  using calculateBaseCost_formula [of 18000 2] by simp

text \<open>
  C7. With purchase quantity 0 the product \<open>quantity * baseFactor\<close> is 0, the guard
  \<^verbatim>\<open>totalBaseUnits > 0\<close> fails and \<^verbatim>\<open>calculateBaseCost\<close> returns exactly 0, for every unit
  and every cost (\<^verbatim>\<open>NaN\<close> included): no division takes place.
\<close>

theorem calculateBaseCost_zero_quantity:
  "calculateBaseCost unit cost (Num 0) = Num 0"
  by (simp add: calculateBaseCost_def zero_number_def)

theorem calculateBaseCost_zero_quantity_witness:
  "calculateBaseCost KILOGRAM (Num 18000) (Num 0) = Num 0
   \<and> calculateBaseCost PIECE NaN (Num 0) = Num 0"
  using calculateBaseCost_zero_quantity [of KILOGRAM "Num 18000"]
        calculateBaseCost_zero_quantity [of PIECE NaN]
  by simp

subsection \<open>The cost calculator\<close>

lemma find_flour:
  "find (\<lambda>i. ing_id i = ri_ingredientId flourLine) initialIngredients = Some flour"
  by (simp add: initialIngredients_def flour_def flourLine_def)

text \<open>
  C1. A recipe whose only line takes 250 (grams) of a catalog ingredient bought as
  1 kilogram for 18000, whose cost per base unit is what \<^verbatim>\<open>calculateBaseCost\<close> gives for
  these purchase fields (18 per gram), with labor cost 0, overhead 0 percent, 1 serving
  and target 30 percent: \<^verbatim>\<open>calculateRecipeCost\<close> returns total ingredient cost 4500,
  overhead cost 0, total cost 4500, cost per serving 4500 and suggested price
  \<open>4500 / (30 / 100) = 15000\<close>.
\<close>

theorem calculateRecipeCost_scenario:
  assumes lookup: "find (\<lambda>i. ing_id i = ri_ingredientId line) ingredients = Some ing"
      and purchase: "ing_purchaseUnit ing = KILOGRAM" "ing_purchaseCost ing = Num 18000"
                    "ing_purchaseQuantity ing = Num 1"
      and derived: "ing_costPerBaseUnit ing =
                      calculateBaseCost (ing_purchaseUnit ing) (ing_purchaseCost ing)
                        (ing_purchaseQuantity ing)"
      and line: "ri_quantity line = Some (Num 250)"
      and recipe: "rec_ingredients recipe = [line]" "rec_laborCost recipe = Num 0"
                  "rec_overheadPercentage recipe = Num 0" "rec_servings recipe = Num 1"
                  "rec_targetFoodCostPercentage recipe = Num 30"
  shows "ing_costPerBaseUnit ing = Num 18
       \<and> cb_totalIngredientCost (calculateRecipeCost ingredients recipe) = Num 4500
       \<and> cb_laborCost (calculateRecipeCost ingredients recipe) = Num 0
       \<and> cb_overheadCost (calculateRecipeCost ingredients recipe) = Num 0
       \<and> cb_totalCost (calculateRecipeCost ingredients recipe) = Num 4500
       \<and> cb_costPerServing (calculateRecipeCost ingredients recipe) = Num 4500
       \<and> cb_suggestedPrice (calculateRecipeCost ingredients recipe) = Num 15000"
proof -
  have cpbu: "ing_costPerBaseUnit ing = Num 18"
    using purchase derived by (simp add: calculateBaseCost_def)
  have total: "totalIngredientCost ingredients recipe = Num 4500"
    using lookup line recipe(1) cpbu
    by (simp add: totalIngredientCost_def addLineCost_def ToNumber_def zero_number_def)
  have icps: "ingredientCostPerServing ingredients recipe = Num 4500"
    using total recipe(4) by (simp add: ingredientCostPerServing_def)
  show ?thesis
    using cpbu total icps recipe by (simp add: calculateRecipeCost_def Let_def)
qed

theorem calculateRecipeCost_scenario_witness:
  "find (\<lambda>i. ing_id i = ri_ingredientId flourLine) initialIngredients = Some flour
   \<and> ing_costPerBaseUnit flour =
       calculateBaseCost (ing_purchaseUnit flour) (ing_purchaseCost flour)
         (ing_purchaseQuantity flour)
   \<and> rec_ingredients bread = [flourLine]
   \<and> cb_totalIngredientCost (calculateRecipeCost initialIngredients bread) = Num 4500
   \<and> cb_totalCost (calculateRecipeCost initialIngredients bread) = Num 4500
   \<and> cb_costPerServing (calculateRecipeCost initialIngredients bread) = Num 4500
   \<and> cb_suggestedPrice (calculateRecipeCost initialIngredients bread) = Num 15000"
proof -
  have cpbu: "ing_costPerBaseUnit flour =
                calculateBaseCost (ing_purchaseUnit flour) (ing_purchaseCost flour)
                  (ing_purchaseQuantity flour)"
    by (simp add: flour_def calculateBaseCost_def)
  have "ing_purchaseUnit flour = KILOGRAM" "ing_purchaseCost flour = Num 18000"
       "ing_purchaseQuantity flour = Num 1" "ri_quantity flourLine = Some (Num 250)"
       "rec_ingredients bread = [flourLine]" "rec_laborCost bread = Num 0"
       "rec_overheadPercentage bread = Num 0" "rec_servings bread = Num 1"
       "rec_targetFoodCostPercentage bread = Num 30"
    by (simp_all add: flour_def flourLine_def bread_def)
  with find_flour cpbu
    calculateRecipeCost_scenario [of flourLine initialIngredients flour bread]
  show ?thesis by simp
qed

subsection \<open>The ingredient catalog\<close>




lemma updated_flour:
  "st_ingredients (handleUpdateIngredient staleFlour initialApp)
     = staleFlour # tl initialIngredients"
  by (simp add: handleUpdateIngredient_def initialApp_def initialIngredients_def flour_def
        milk_def staleFlour_def)





lemma list_ex_used:
  "list_ex (\<lambda>r. list_ex (\<lambda>ri. ri_ingredientId ri = ident) (rec_ingredients r)) recipes
     = (\<exists>r \<in> set recipes. \<exists>ri \<in> set (rec_ingredients r). ri_ingredientId ri = ident)"
  by (simp add: list_ex_iff)

lemma bread_uses_flour:
  "\<exists>r \<in> set (st_recipes initialApp). \<exists>ri \<in> set (rec_ingredients r). ri_ingredientId ri = ''1''"
  by (simp add: initialApp_def bread_def flourLine_def)

lemma eggs_unused:
  "\<not> (\<exists>r \<in> set (st_recipes initialApp). \<exists>ri \<in> set (rec_ingredients r). ri_ingredientId ri = ''2'')"
  by (simp add: initialApp_def bread_def flourLine_def)

text \<open>
  C4. If a line of some saved recipe references the identifier, \<^verbatim>\<open>handleDeleteIngredient\<close>
  refuses with the alert that the ingredient is used in a recipe and leaves the whole
  state, the catalog included, as it was. Otherwise it shows no alert, keeps the recipes
  and removes from the catalog exactly the entries with that identifier.
\<close>

theorem handleDeleteIngredient_guard:
  "((\<exists>r \<in> set (st_recipes st). \<exists>ri \<in> set (rec_ingredients r). ri_ingredientId ri = ident)
      \<longrightarrow> handleDeleteIngredient ident st = (Some CannotDeleteUsed, st))
   \<and> (\<not> (\<exists>r \<in> set (st_recipes st). \<exists>ri \<in> set (rec_ingredients r). ri_ingredientId ri = ident)
      \<longrightarrow> fst (handleDeleteIngredient ident st) = None
          \<and> st_recipes (snd (handleDeleteIngredient ident st)) = st_recipes st
          \<and> st_ingredients (snd (handleDeleteIngredient ident st))
              = filter (\<lambda>i. ing_id i \<noteq> ident) (st_ingredients st)
          \<and> (\<forall>i \<in> set (st_ingredients (snd (handleDeleteIngredient ident st))).
                ing_id i \<noteq> ident))"
  by (simp add: handleDeleteIngredient_def Let_def list_ex_used)

theorem handleDeleteIngredient_guard_witness:
  "(\<exists>r \<in> set (st_recipes initialApp). \<exists>ri \<in> set (rec_ingredients r). ri_ingredientId ri = ''1'')
   \<and> handleDeleteIngredient ''1'' initialApp = (Some CannotDeleteUsed, initialApp)
   \<and> length (st_ingredients (snd (handleDeleteIngredient ''1'' initialApp))) = 6
   \<and> \<not> (\<exists>r \<in> set (st_recipes initialApp). \<exists>ri \<in> set (rec_ingredients r). ri_ingredientId ri = ''2'')
   \<and> fst (handleDeleteIngredient ''2'' initialApp) = None
   \<and> map ing_id (st_ingredients (snd (handleDeleteIngredient ''2'' initialApp)))
       = [''1'', ''3'', ''4'', ''5'', ''6'']"
  using handleDeleteIngredient_guard [of initialApp "''1''"]
        handleDeleteIngredient_guard [of initialApp "''2''"]
        bread_uses_flour eggs_unused
  by (simp add: initialApp_def initialIngredients_def flour_def milk_def)

subsection \<open>The draft reconciler\<close>

lemma toLowerCase_flour [simp]: "toLowerCase env ''All-Purpose Flour'' = ''all-purpose flour''"
  by (simp add: toLowerCase_def toLowerCase_char_def isASCII_def)

lemma parseUnit_variants:
  "parseUnit env ''KG'' = KILOGRAM" "parseUnit env ''Kg'' = KILOGRAM"
  "parseUnit env ''kgs'' = KILOGRAM" "parseUnit env ''kilogram'' = KILOGRAM"
  "parseUnit env ''L'' = LITER" "parseUnit env ''liter'' = LITER"
  by code_simp+

lemma suggestionLine_quantity:
  "ri_quantity (suggestionLine m s) =
     (if sug_unit s = Some ''kg'' \<or> sug_unit s = Some ''l''
      then Some (ToNumber (sug_quantity s) * Num 1000) else sug_quantity s)"
  by (simp add: suggestionLine_def Let_def)



lemma reconcileSuggestion_Some:
  assumes "sug_name s = Some n"
      and "find (\<lambda>i. toLowerCase env (ing_name i) = toLowerCase env n) ingredients = Some m"
  shows "reconcileSuggestion env ingredients (lines, console) s =
           Inr (lines @ [suggestionLine m s], console)"
proof -
  from assms(2) have "ingredients \<noteq> []" by auto
  with assms show ?thesis
    by (simp add: reconcileSuggestion_def findMatch_def Let_def)
qed







lemma handleGenerateAI_thrown:
  assumes "reconcile env ingredients draft = (Some e, lines, console)" and "rec_name r \<noteq> []"
  shows "handleGenerateAI env ingredients (Some draft) (Some r) =
           (Some r, Some FailedToGenerate, console)"
  using assms by (simp add: handleGenerateAI_def)

lemma handleGenerateAI_unnamed_recipe:
  assumes "rec_name r = []"
  shows "handleGenerateAI env ingredients response (Some r) = (Some r, None, [])"
  using assms by (simp add: handleGenerateAI_def)









text \<open>
  C10. The rebase is decided by equality of the unit text with \<^verbatim>\<open>kg\<close> or \<^verbatim>\<open>l\<close>,
  whatever entry was matched: these two texts multiply the quantity by 1000, every
  other text, and a missing one, leaves it as suggested. That includes \<^verbatim>\<open>KG\<close>, \<^verbatim>\<open>Kg\<close>,
  \<^verbatim>\<open>kgs\<close>, \<^verbatim>\<open>L\<close>, \<^verbatim>\<open>liter\<close> and \<^verbatim>\<open>kilogram\<close>, all of which \<^verbatim>\<open>parseUnit\<close> of the
  import path classifies as kilogram or liter.
\<close>

theorem rebase_exact_unit_tokens:
  "(sug_name s = Some n
      \<and> find (\<lambda>i. toLowerCase env (ing_name i) = toLowerCase env n) ingredients = Some m
      \<longrightarrow> (\<exists>ls. reconcileSuggestion env ingredients (lines, console) s = Inr (ls, console)
                \<and> ri_quantity (last ls) =
                    (if sug_unit s = Some ''kg'' \<or> sug_unit s = Some ''l''
                     then Some (ToNumber (sug_quantity s) * Num 1000) else sug_quantity s)
                \<and> (sug_quantity s = Some q \<and> (sug_unit s = Some ''kg'' \<or> sug_unit s = Some ''l'')
                    \<longrightarrow> ri_quantity (last ls) = Some (q * Num 1000))
                \<and> (sug_unit s \<in> {Some ''KG'', Some ''Kg'', Some ''kgs'', Some ''L'', Some ''liter'',
                                  Some ''kilogram''}
                    \<longrightarrow> ri_quantity (last ls) = sug_quantity s)))
   \<and> parseUnit env ''KG'' = KILOGRAM \<and> parseUnit env ''Kg'' = KILOGRAM
   \<and> parseUnit env ''kgs'' = KILOGRAM \<and> parseUnit env ''kilogram'' = KILOGRAM
   \<and> parseUnit env ''L'' = LITER \<and> parseUnit env ''liter'' = LITER"
proof -
  have rebase: "sug_name s = Some n
      \<and> find (\<lambda>i. toLowerCase env (ing_name i) = toLowerCase env n) ingredients = Some m
      \<longrightarrow> (\<exists>ls. reconcileSuggestion env ingredients (lines, console) s = Inr (ls, console)
                \<and> ri_quantity (last ls) =
                    (if sug_unit s = Some ''kg'' \<or> sug_unit s = Some ''l''
                     then Some (ToNumber (sug_quantity s) * Num 1000) else sug_quantity s)
                \<and> (sug_quantity s = Some q \<and> (sug_unit s = Some ''kg'' \<or> sug_unit s = Some ''l'')
                    \<longrightarrow> ri_quantity (last ls) = Some (q * Num 1000))
                \<and> (sug_unit s \<in> {Some ''KG'', Some ''Kg'', Some ''kgs'', Some ''L'', Some ''liter'',
                                  Some ''kilogram''}
                    \<longrightarrow> ri_quantity (last ls) = sug_quantity s))"
  proof
    assume "sug_name s = Some n
      \<and> find (\<lambda>i. toLowerCase env (ing_name i) = toLowerCase env n) ingredients = Some m"
    then have run: "reconcileSuggestion env ingredients (lines, console) s
                      = Inr (lines @ [suggestionLine m s], console)"
      by (simp add: reconcileSuggestion_Some)
    have exact: "ri_quantity (last (lines @ [suggestionLine m s])) =
                    (if sug_unit s = Some ''kg'' \<or> sug_unit s = Some ''l''
                     then Some (ToNumber (sug_quantity s) * Num 1000) else sug_quantity s)"
      by (simp add: suggestionLine_quantity)
    have present: "sug_quantity s = Some q \<and> (sug_unit s = Some ''kg'' \<or> sug_unit s = Some ''l'')
                    \<longrightarrow> ri_quantity (last (lines @ [suggestionLine m s])) = Some (q * Num 1000)"
      by (auto simp: suggestionLine_quantity ToNumber_def)
    have variants: "sug_unit s \<in> {Some ''KG'', Some ''Kg'', Some ''kgs'', Some ''L'', Some ''liter'',
                                  Some ''kilogram''}
                    \<longrightarrow> ri_quantity (last (lines @ [suggestionLine m s])) = sug_quantity s"
      by (auto simp: suggestionLine_quantity)
    from run exact present variants
    show "\<exists>ls. reconcileSuggestion env ingredients (lines, console) s = Inr (ls, console)
                \<and> ri_quantity (last ls) =
                    (if sug_unit s = Some ''kg'' \<or> sug_unit s = Some ''l''
                     then Some (ToNumber (sug_quantity s) * Num 1000) else sug_quantity s)
                \<and> (sug_quantity s = Some q \<and> (sug_unit s = Some ''kg'' \<or> sug_unit s = Some ''l'')
                    \<longrightarrow> ri_quantity (last ls) = Some (q * Num 1000))
                \<and> (sug_unit s \<in> {Some ''KG'', Some ''Kg'', Some ''kgs'', Some ''L'', Some ''liter'',
                                  Some ''kilogram''}
                    \<longrightarrow> ri_quantity (last ls) = sug_quantity s)"
      by blast
  qed
  from rebase parseUnit_variants [of env] show ?thesis by blast
qed

lemma find_flour_name:
  "find (\<lambda>i. toLowerCase sampleBuiltins (ing_name i) = toLowerCase sampleBuiltins ''All-Purpose Flour'')
     initialIngredients = Some flour"
  by (simp add: initialIngredients_def flour_def)

lemma rebase_samples:
  "reconcileSuggestion sampleBuiltins initialIngredients ([], [])
       (flourSuggestion\<lparr>sug_unit := Some ''KG''\<rparr>)
     = Inr ([\<lparr>ri_ingredientId = ''1'', ri_quantity = Some (Num 0.5), ri_unit = Some ''KG''\<rparr>], [])"
  "reconcileSuggestion sampleBuiltins initialIngredients ([], []) flourSuggestion
     = Inr ([\<lparr>ri_ingredientId = ''1'', ri_quantity = Some (Num 500), ri_unit = Some ''kg''\<rparr>], [])"
  by code_simp+

theorem rebase_exact_unit_tokens_witness:
  "sug_name (flourSuggestion\<lparr>sug_unit := Some ''KG''\<rparr>) = Some ''All-Purpose Flour''
   \<and> find (\<lambda>i. toLowerCase sampleBuiltins (ing_name i)
                = toLowerCase sampleBuiltins ''All-Purpose Flour'')
       initialIngredients = Some flour
   \<and> ing_purchaseUnit flour = KILOGRAM \<and> parseUnit sampleBuiltins ''KG'' = KILOGRAM
   \<and> sug_unit (flourSuggestion\<lparr>sug_unit := Some ''KG''\<rparr>)
       \<in> {Some ''KG'', Some ''Kg'', Some ''kgs'', Some ''L'', Some ''liter'', Some ''kilogram''}
   \<and> reconcileSuggestion sampleBuiltins initialIngredients ([], [])
         (flourSuggestion\<lparr>sug_unit := Some ''KG''\<rparr>)
       = Inr ([\<lparr>ri_ingredientId = ''1'', ri_quantity = Some (Num 0.5), ri_unit = Some ''KG''\<rparr>], [])
   \<and> sug_name flourSuggestion = Some ''All-Purpose Flour''
   \<and> sug_quantity flourSuggestion = Some (Num 0.5) \<and> sug_unit flourSuggestion = Some ''kg''
   \<and> reconcileSuggestion sampleBuiltins initialIngredients ([], []) flourSuggestion
       = Inr ([\<lparr>ri_ingredientId = ''1'', ri_quantity = Some (Num 500), ri_unit = Some ''kg''\<rparr>], [])"
proof -
  note inst = rebase_exact_unit_tokens
                [where s = "flourSuggestion\<lparr>sug_unit := Some ''KG''\<rparr>"
                   and n = "''All-Purpose Flour''" and env = sampleBuiltins
                   and ingredients = initialIngredients and m = flour
                   and lines = "[]" and console = "[]"]
  from inst have "parseUnit sampleBuiltins ''KG'' = KILOGRAM"
    by blast
  with find_flour_name rebase_samples show ?thesis
    by (simp add: flourSuggestion_def flour_def)
qed









subsection \<open>Bulk import\<close>

lemma foldl_importRow:
  "foldl (importRow env) acc rows =
     acc @ map (\<lambda>(k, row). rowIngredient env (randomUUID env k) row)
             (enumerate (length acc) (filter (\<lambda>row. truthy (row_name row) \<and> 0 < row_cost env row) rows))"
proof (induction rows arbitrary: acc)
  case Nil
  then show ?case by simp
next
  case (Cons row rows)
  show ?case
  proof (cases "truthy (row_name row) \<and> 0 < row_cost env row")
    case True
    then have "importRow env acc row = acc @ [rowIngredient env (randomUUID env (length acc)) row]"
      by (simp add: importRow_def Let_def)
    with True Cons.IH [of "acc @ [rowIngredient env (randomUUID env (length acc)) row]"]
    show ?thesis by simp
  next
    case False
    then have "importRow env acc row = acc"
      by (auto simp: importRow_def Let_def)
    with False Cons.IH [of acc] show ?thesis by auto
  qed
qed

lemma not_zero_less_zero [simp]: "\<not> 0 < Num 0"
  by (simp add: zero_number_def)

lemma length_valid_rows:
  assumes "\<forall>row \<in> set rows. row_cost env row \<noteq> Num 0
             \<longrightarrow> truthy (row_name row) \<and> 0 < row_cost env row"
  shows "length (filter (\<lambda>row. truthy (row_name row) \<and> 0 < row_cost env row) rows)
           = length rows - length (filter (\<lambda>row. row_cost env row = Num 0) rows)"
proof -
  have "filter (\<lambda>row. truthy (row_name row) \<and> 0 < row_cost env row) rows
          = filter (\<lambda>row. \<not> row_cost env row = Num 0) rows"
    using assms by (intro filter_cong) auto
  moreover have "length (filter (\<lambda>row. row_cost env row = Num 0) rows)
                   + length (filter (\<lambda>row. \<not> row_cost env row = Num 0) rows) = length rows"
    by (rule sum_length_filter_compl)
  ultimately show ?thesis by simp
qed

lemma sample_costs:
  "length sampleRows = 10"
  "length (filter (\<lambda>row. row_cost sampleBuiltins row = Num 0) sampleRows) = 2"
  "\<forall>row \<in> set sampleRows. row_cost sampleBuiltins row \<noteq> Num 0
      \<longrightarrow> truthy (row_name row) \<and> 0 < row_cost sampleBuiltins row"
  by code_simp+

lemma sample_names:
  "map ing_name (foldl (importRow sampleBuiltins) [] sampleRows)
     = [''Salt'', ''Sugar'', ''Butter'', ''Rice'', ''Garlic'', ''Onion'', ''Chili'', ''Pepper'']"
  by code_simp

text \<open>
  C8. The import admits exactly the rows whose name resolves to a truthy value and whose
  resolved cost is greater than 0, in the order of the sheet: the other rows are skipped
  and do not stop the batch. If some row is admitted, the admitted rows are appended to
  the catalog and the alert reports their number; if none is, the catalog stays and the
  alert says that no valid ingredient was found. For a sheet of 10 rows, 2 of them with
  cost 0 and the other 8 valid, the reported number is 8.
\<close>

theorem handleFileUpload_admits_valid_rows:
  "foldl (importRow env) [] rows =
     map (\<lambda>(k, row). rowIngredient env (randomUUID env k) row)
       (enumerate 0 (filter (\<lambda>row. truthy (row_name row) \<and> 0 < row_cost env row) rows))
   \<and> handleFileUpload env rows st =
       (if filter (\<lambda>row. truthy (row_name row) \<and> 0 < row_cost env row) rows = []
        then (NoValidIngredients, st)
        else (SuccessfullyImported
                (length (filter (\<lambda>row. truthy (row_name row) \<and> 0 < row_cost env row) rows)),
              st\<lparr>st_ingredients := st_ingredients st @ foldl (importRow env) [] rows\<rparr>))
   \<and> (length rows = 10 \<and> length (filter (\<lambda>row. row_cost env row = Num 0) rows) = 2
        \<and> (\<forall>row \<in> set rows. row_cost env row \<noteq> Num 0
              \<longrightarrow> truthy (row_name row) \<and> 0 < row_cost env row)
      \<longrightarrow> fst (handleFileUpload env rows st) = SuccessfullyImported 8
          \<and> length (st_ingredients (snd (handleFileUpload env rows st)))
              = length (st_ingredients st) + 8)"
proof -
  let ?valid = "filter (\<lambda>row. truthy (row_name row) \<and> 0 < row_cost env row) rows"
  have parsed: "foldl (importRow env) [] rows =
      map (\<lambda>(k, row). rowIngredient env (randomUUID env k) row) (enumerate 0 ?valid)"
    using foldl_importRow [of env "[]" rows] by simp
  then have len: "length (foldl (importRow env) [] rows) = length ?valid"
    by simp
  have empty: "(foldl (importRow env) [] rows = []) = (?valid = [])"
    by (metis len length_0_conv)
  have upload: "handleFileUpload env rows st =
       (if ?valid = [] then (NoValidIngredients, st)
        else (SuccessfullyImported (length ?valid),
              st\<lparr>st_ingredients := st_ingredients st @ foldl (importRow env) [] rows\<rparr>))"
    by (simp add: handleFileUpload_def Let_def handleBulkAddIngredients_def empty len)
  have scenario: "length rows = 10 \<and> length (filter (\<lambda>row. row_cost env row = Num 0) rows) = 2
        \<and> (\<forall>row \<in> set rows. row_cost env row \<noteq> Num 0
              \<longrightarrow> truthy (row_name row) \<and> 0 < row_cost env row)
      \<longrightarrow> fst (handleFileUpload env rows st) = SuccessfullyImported 8
          \<and> length (st_ingredients (snd (handleFileUpload env rows st)))
              = length (st_ingredients st) + 8"
  proof
    assume h: "length rows = 10 \<and> length (filter (\<lambda>row. row_cost env row = Num 0) rows) = 2
        \<and> (\<forall>row \<in> set rows. row_cost env row \<noteq> Num 0
              \<longrightarrow> truthy (row_name row) \<and> 0 < row_cost env row)"
    then have "length ?valid = 8"
      using length_valid_rows [of rows env] by simp
    then show "fst (handleFileUpload env rows st) = SuccessfullyImported 8
          \<and> length (st_ingredients (snd (handleFileUpload env rows st)))
              = length (st_ingredients st) + 8"
      using len by (auto simp: upload)
  qed
  from parsed upload scenario show ?thesis by blast
qed

theorem handleFileUpload_admits_valid_rows_witness:
  "length sampleRows = 10
   \<and> length (filter (\<lambda>row. row_cost sampleBuiltins row = Num 0) sampleRows) = 2
   \<and> \<not> (\<exists>row \<in> set sampleRows. row_cost sampleBuiltins row \<noteq> Num 0
           \<and> \<not> (truthy (row_name row) \<and> 0 < row_cost sampleBuiltins row))
   \<and> fst (handleFileUpload sampleBuiltins sampleRows initialApp) = SuccessfullyImported 8
   \<and> length (st_ingredients (snd (handleFileUpload sampleBuiltins sampleRows initialApp)))
       = length (st_ingredients initialApp) + 8
   \<and> map ing_name (foldl (importRow sampleBuiltins) [] sampleRows)
       = [''Salt'', ''Sugar'', ''Butter'', ''Rice'', ''Garlic'', ''Onion'', ''Chili'', ''Pepper'']"
proof -
  from handleFileUpload_admits_valid_rows [of sampleBuiltins sampleRows initialApp] sample_costs
  have "fst (handleFileUpload sampleBuiltins sampleRows initialApp) = SuccessfullyImported 8
        \<and> length (st_ingredients (snd (handleFileUpload sampleBuiltins sampleRows initialApp)))
            = length (st_ingredients initialApp) + 8"
    by blast
  with sample_costs sample_names show ?thesis
    by blast
qed

end
